theory Spec2Isabelle
  imports Complex_Main "HOL-Library.Multiset"
begin

section \<open>Conventions of the embedding\<close>

text \<open>
  The engine computes on numpy \<open>float64\<close> arrays. A finite float is modelled as a \<open>real\<close>
  and a one-dimensional array as a \<open>real list\<close>; a decimal literal of the source is the
  rational it denotes (\<open>0.05\<close> is \<open>5 / 100\<close>, \<open>1e-10\<close> is \<open>1 / 10 ^ 10\<close>). Rounding and
  overflow are outside the model. A division whose divisor can be zero is not: numpy
  does not raise there, it returns an infinity or NaN, and the value of such a division
  is an \<open>fp\<close>. Calls into numpy, scipy and hmmlearn whose result the source only passes
  on are parameters of the definitions that make them.
\<close>

definition eps :: real where
  "eps = 1 / 10 ^ 10"

text \<open>\<open>a.mean()\<close> of a one-dimensional array.\<close>

definition mean :: "real list \<Rightarrow> real" where
  "mean xs = sum_list xs / real (length xs)"

text \<open>
  \<open>a[-k]\<close> for \<open>1 \<le> k \<le> len(a)\<close>. Every read below is behind the source's own length
  check, so the index is in range wherever the source evaluates it.
\<close>

definition from_end :: "'a list \<Rightarrow> nat \<Rightarrow> 'a" where
  "from_end xs k = xs ! (length xs - k)"

text \<open>
  The slice \<open>a[-k:-1]\<close> for \<open>k \<ge> 1\<close>: a start before the array is clamped to its
  beginning, which is what truncating subtraction does here.
\<close>

definition slice_before_last :: "'a list \<Rightarrow> nat \<Rightarrow> 'a list" where
  "slice_before_last xs k = butlast (drop (length xs - k) xs)"

subsection \<open>Floats that may be infinite or NaN\<close>

datatype fp = Num real | PosInf | NegInf | NaN

text \<open>
  \<open>a / b\<close> on two finite \<open>float64\<close> values: a quotient by zero is an infinity of the sign
  of \<open>a\<close>, and \<open>0.0 / 0.0\<close> is NaN. (The zero divisors of the source are sums
  \<open>x + 1e-10\<close>, which are positive zeros.)
\<close>

definition np_div :: "real \<Rightarrow> real \<Rightarrow> fp" where
  "np_div a b =
     (if b \<noteq> 0 then Num (a / b)
      else if a > 0 then PosInf else if a < 0 then NegInf else NaN)"

text \<open>\<open>x - c\<close>, \<open>c - x\<close>, \<open>abs(x)\<close> and \<open>x / c\<close> for a finite \<open>c\<close>, in the last case a
  positive one.\<close>

fun fp_minus :: "fp \<Rightarrow> real \<Rightarrow> fp" where
  "fp_minus (Num x) c = Num (x - c)"
| "fp_minus PosInf c = PosInf"
| "fp_minus NegInf c = NegInf"
| "fp_minus NaN c = NaN"

fun fp_rminus :: "real \<Rightarrow> fp \<Rightarrow> fp" where
  "fp_rminus c (Num x) = Num (c - x)"
| "fp_rminus c PosInf = NegInf"
| "fp_rminus c NegInf = PosInf"
| "fp_rminus c NaN = NaN"

fun fp_abs :: "fp \<Rightarrow> fp" where
  "fp_abs (Num x) = Num \<bar>x\<bar>"
| "fp_abs PosInf = PosInf"
| "fp_abs NegInf = PosInf"
| "fp_abs NaN = NaN"

fun fp_div_pos :: "fp \<Rightarrow> real \<Rightarrow> fp" where
  "fp_div_pos (Num x) c = Num (x / c)"
| "fp_div_pos PosInf c = PosInf"
| "fp_div_pos NegInf c = NegInf"
| "fp_div_pos NaN c = NaN"

text \<open>The comparisons \<open>x < c\<close>, \<open>x > c\<close>, \<open>x <= c\<close> and \<open>x >= c\<close> with a finite \<open>c\<close>; every
  comparison with NaN is false.\<close>

fun fp_lt :: "fp \<Rightarrow> real \<Rightarrow> bool" where
  "fp_lt (Num x) c = (x < c)"
| "fp_lt PosInf c = False"
| "fp_lt NegInf c = True"
| "fp_lt NaN c = False"

fun fp_gt :: "fp \<Rightarrow> real \<Rightarrow> bool" where
  "fp_gt (Num x) c = (x > c)"
| "fp_gt PosInf c = True"
| "fp_gt NegInf c = False"
| "fp_gt NaN c = False"

fun fp_le :: "fp \<Rightarrow> real \<Rightarrow> bool" where
  "fp_le (Num x) c = (x \<le> c)"
| "fp_le PosInf c = False"
| "fp_le NegInf c = True"
| "fp_le NaN c = False"

fun fp_ge :: "fp \<Rightarrow> real \<Rightarrow> bool" where
  "fp_ge (Num x) c = (x \<ge> c)"
| "fp_ge PosInf c = True"
| "fp_ge NegInf c = False"
| "fp_ge NaN c = False"

text \<open>
  Python's built-in \<open>min(x, c)\<close> and \<open>max(x, c)\<close>: the first argument is kept unless the
  second is strictly smaller (for \<open>max\<close>, strictly larger), so a NaN first argument is
  returned as it is.
\<close>

definition py_min :: "fp \<Rightarrow> real \<Rightarrow> fp" where
  "py_min x c = (if fp_gt x c then Num c else x)"

definition py_max :: "fp \<Rightarrow> real \<Rightarrow> fp" where
  "py_max x c = (if fp_lt x c then Num c else x)"

text \<open>A value in the unit interval, and a value that is in the unit interval or NaN.\<close>

definition in_unit :: "fp \<Rightarrow> bool" where
  "in_unit v = (case v of Num r \<Rightarrow> 0 \<le> r \<and> r \<le> 1 | _ \<Rightarrow> False)"

definition unit_or_nan :: "fp \<Rightarrow> bool" where
  "unit_or_nan v = (case v of Num r \<Rightarrow> 0 \<le> r \<and> r \<le> 1 | NaN \<Rightarrow> True | _ \<Rightarrow> False)"

section \<open>models/anomaly\_detector.py\<close>

datatype AnomalyType = FLASH_CRASH | PUMP | VOLUME_SPIKE | LIQUIDITY_CRISIS

text \<open>
  The \<open>description\<close> field is a formatted string of the same numbers as \<open>details\<close>; it is
  left out. \<open>details\<close> keeps its keys in insertion order.
\<close>

record AnomalyEvent =
  anomaly_type :: AnomalyType
  severity :: fp
  details :: "(string \<times> fp) list"

text \<open>
  The detectors. \<open>window\<close> is a \<open>nat\<close>: \<open>scan_all\<close> calls every detector with its
  default window.
\<close>

definition detect_flash_crash :: "real list \<Rightarrow> real \<Rightarrow> nat \<Rightarrow> bool" where
  "detect_flash_crash prices threshold window =
     (if length prices < window + 1 then False
      else let recent_return =
                 fp_minus (np_div (from_end prices 1) (from_end prices (window + 1) + eps)) 1
           in fp_le recent_return threshold)"

definition detect_pump :: "real list \<Rightarrow> real list \<Rightarrow> real \<Rightarrow> real \<Rightarrow> nat \<Rightarrow> bool" where
  "detect_pump prices volumes price_threshold vol_threshold window =
     (if length prices < window + 1 \<or> length volumes < window + 1 then False
      else let recent_return =
                 fp_minus (np_div (from_end prices 1) (from_end prices (window + 1) + eps)) 1;
               mean_volume = mean (slice_before_last volumes (window + 1));
               current_volume = from_end volumes 1;
               price_surged = fp_ge recent_return price_threshold;
               volume_surged = (current_volume \<ge> vol_threshold * (mean_volume + eps))
           in price_surged \<and> volume_surged)"

definition detect_volume_spike :: "real list \<Rightarrow> real \<Rightarrow> nat \<Rightarrow> bool" where
  "detect_volume_spike volumes threshold window =
     (if length volumes < window + 1 then False
      else let mean_vol = mean (slice_before_last volumes (window + 1))
           in from_end volumes 1 \<ge> threshold * (mean_vol + eps))"

definition detect_liquidity_crisis :: "real list \<Rightarrow> real \<Rightarrow> nat \<Rightarrow> bool" where
  "detect_liquidity_crisis orderbook_depth threshold window =
     (if length orderbook_depth < window + 1 then False
      else let mean_depth = mean (slice_before_last orderbook_depth (window + 1))
           in from_end orderbook_depth 1 \<le> threshold * (mean_depth + eps))"

text \<open>The default arguments of the four detectors, as \<open>scan_all\<close> uses them.\<close>

definition flash_crash_default :: "real list \<Rightarrow> bool" where
  "flash_crash_default prices = detect_flash_crash prices (- (5 / 100)) 5"

definition pump_default :: "real list \<Rightarrow> real list \<Rightarrow> bool" where
  "pump_default prices volumes = detect_pump prices volumes (10 / 100) 3 5"

definition volume_spike_default :: "real list \<Rightarrow> bool" where
  "volume_spike_default volumes = detect_volume_spike volumes 3 20"

definition liquidity_crisis_default :: "real list \<Rightarrow> bool" where
  "liquidity_crisis_default depth = detect_liquidity_crisis depth (3 / 10) 10"

text \<open>
  \<open>market_data\<close> is a dictionary whose three keys are all optional; \<open>.get\<close> gives
  \<open>None\<close> for a missing key.
\<close>

record market_data =
  prices :: "real list option"
  volumes :: "real list option"
  orderbook_depth :: "real list option"

text \<open>The four blocks of \<open>scan_all\<close>, each the list of events it appends.\<close>

definition scan_flash_crash :: "market_data \<Rightarrow> AnomalyEvent list" where
  "scan_flash_crash md =
     (case prices md of
        None \<Rightarrow> []
      | Some prices_arr \<Rightarrow>
          if flash_crash_default prices_arr then
            let recent_ret =
                  fp_minus (np_div (from_end prices_arr 1) (from_end prices_arr 6 + eps)) 1;
                sev = py_min (fp_div_pos (fp_abs recent_ret) (20 / 100)) 1
            in [\<lparr>anomaly_type = FLASH_CRASH, severity = sev,
                 details = [(''return'', recent_ret)]\<rparr>]
          else [])"

definition scan_pump :: "market_data \<Rightarrow> AnomalyEvent list" where
  "scan_pump md =
     (case (prices md, volumes md) of
        (Some prices_arr, Some volumes_arr) \<Rightarrow>
          if pump_default prices_arr volumes_arr then
            let recent_ret =
                  fp_minus (np_div (from_end prices_arr 1) (from_end prices_arr 6 + eps)) 1;
                vol_ratio = np_div (from_end volumes_arr 1)
                              (mean (slice_before_last volumes_arr 6) + eps);
                sev = py_min (fp_div_pos recent_ret (30 / 100)) 1
            in [\<lparr>anomaly_type = PUMP, severity = sev,
                 details = [(''return'', recent_ret), (''volume_ratio'', vol_ratio)]\<rparr>]
          else []
      | _ \<Rightarrow> [])"

definition scan_volume_spike :: "market_data \<Rightarrow> AnomalyEvent list" where
  "scan_volume_spike md =
     (case volumes md of
        None \<Rightarrow> []
      | Some volumes_arr \<Rightarrow>
          if volume_spike_default volumes_arr then
            let mean_vol = (if length volumes_arr \<ge> 21 then mean (slice_before_last volumes_arr 21)
                            else mean (butlast volumes_arr));
                ratio = np_div (from_end volumes_arr 1) (mean_vol + eps);
                sev = py_min (fp_div_pos (fp_minus ratio 3) 7) 1
            in [\<lparr>anomaly_type = VOLUME_SPIKE, severity = py_max sev 0,
                 details = [(''volume_ratio'', ratio)]\<rparr>]
          else [])"

definition scan_liquidity_crisis :: "market_data \<Rightarrow> AnomalyEvent list" where
  "scan_liquidity_crisis md =
     (case orderbook_depth md of
        None \<Rightarrow> []
      | Some depth_arr \<Rightarrow>
          if liquidity_crisis_default depth_arr then
            let mean_depth = (if length depth_arr \<ge> 11 then mean (slice_before_last depth_arr 11)
                              else mean (butlast depth_arr));
                ratio = np_div (from_end depth_arr 1) (mean_depth + eps);
                sev = py_min (fp_div_pos (fp_rminus 1 ratio) (7 / 10)) 1
            in [\<lparr>anomaly_type = LIQUIDITY_CRISIS, severity = py_max sev 0,
                 details = [(''depth_ratio'', ratio)]\<rparr>]
          else [])"

definition scan_all :: "market_data \<Rightarrow> AnomalyEvent list" where
  "scan_all md =
     scan_flash_crash md @ scan_pump md @ scan_volume_spike md @ scan_liquidity_crisis md"

section \<open>models/regime\_detector.py\<close>

datatype MarketRegime = BULL_HIGH_VOL | BULL_LOW_VOL | BEAR_HIGH_VOL | BEAR_LOW_VOL

text \<open>\<open>MarketRegime(i)\<close> for the values 0 to 3 of the \<open>IntEnum\<close>; the source only calls
  it on \<open>raw_idx % 4\<close>.\<close>

definition MarketRegime_of :: "nat \<Rightarrow> MarketRegime" where
  "MarketRegime_of i =
     (if i = 0 then BULL_HIGH_VOL else if i = 1 then BULL_LOW_VOL
      else if i = 2 then BEAR_HIGH_VOL else BEAR_LOW_VOL)"

fun REGIME_LABELS :: "MarketRegime \<Rightarrow> string" where
  "REGIME_LABELS BULL_HIGH_VOL = ''BULL_HIGH_VOL''"
| "REGIME_LABELS BULL_LOW_VOL = ''BULL_LOW_VOL''"
| "REGIME_LABELS BEAR_HIGH_VOL = ''BEAR_HIGH_VOL''"
| "REGIME_LABELS BEAR_LOW_VOL = ''BEAR_LOW_VOL''"

record RegimePrediction =
  regime :: MarketRegime
  label :: string
  probability :: real
  all_probabilities :: "string \<rightharpoonup> real"

text \<open>
  A row of the feature matrix is the triple (return, volatility, volume change) that
  \<open>_build_features\<close> stacks. The fitted \<open>GaussianHMM\<close> is a library object: what it
  returns (the decoded states, the posteriors, the transition matrix) is an argument of
  the method that asks for it.
\<close>

type_synonym feature_row = "real \<times> real \<times> real"

record RegimeDetector =
  n_regimes :: nat
  volatility_window :: nat
  state_map :: "nat \<rightharpoonup> MarketRegime"
  is_fitted :: bool

datatype error = NotFitted | HmmError | IndexError | ValueError

text \<open>\<open>__init__\<close>: the state map starts empty and the instance unfitted.\<close>

definition RegimeDetector_init :: "nat \<Rightarrow> nat \<Rightarrow> RegimeDetector" where
  "RegimeDetector_init n vw =
     \<lparr>n_regimes = n, volatility_window = vw, state_map = Map.empty, is_fitted = False\<rparr>"

text \<open>
  \<open>_map_states\<close>. \<open>states\<close> is \<open>self._hmm.predict(features)\<close>, one raw state per feature
  row. \<open>state_means\<close> is the dictionary \<open>means\<close>: the rows selected by \<open>states == s\<close>,
  their column means, and (0, 0) when the mask is empty.
\<close>

definition state_means :: "nat list \<Rightarrow> feature_row list \<Rightarrow> nat \<Rightarrow> real \<times> real" where
  "state_means states features s =
     (let rows = map snd (filter (\<lambda>(st, row). st = s) (zip states features))
      in if length rows = 0 then (0, 0)
         else (mean (map fst rows), mean (map (\<lambda>row. fst (snd row)) rows)))"

text \<open>
  \<open>sorted(..., reverse=True)\<close> and \<open>list.sort(reverse=True)\<close> are stable: equal keys
  keep their order. That is the stable ascending sort on the negated key.
\<close>

definition sort_desc :: "('a \<Rightarrow> real) \<Rightarrow> 'a list \<Rightarrow> 'a list" where
  "sort_desc key xs = sort_key (\<lambda>x. - key x) xs"

definition sorted_states :: "nat \<Rightarrow> nat list \<Rightarrow> feature_row list \<Rightarrow> nat list" where
  "sorted_states n states features =
     sort_desc (\<lambda>s. fst (state_means states features s)) [0..<n]"

definition bulls :: "nat \<Rightarrow> nat list \<Rightarrow> feature_row list \<Rightarrow> nat list" where
  "bulls n states features =
     sort_desc (\<lambda>s. snd (state_means states features s))
       (take (n div 2) (sorted_states n states features))"

definition bears :: "nat \<Rightarrow> nat list \<Rightarrow> feature_row list \<Rightarrow> nat list" where
  "bears n states features =
     sort_desc (\<lambda>s. snd (state_means states features s))
       (drop (n div 2) (sorted_states n states features))"

text \<open>The four guarded assignments that build \<open>mapping\<close>, in the source's order (a later
  assignment to the same key would overwrite an earlier one).\<close>

definition assign_regimes :: "nat list \<Rightarrow> nat list \<Rightarrow> (nat \<rightharpoonup> MarketRegime)" where
  "assign_regimes bl br =
     (let mapping = Map.empty;
          mapping = (if length bl \<ge> 1 then mapping(bl ! 0 \<mapsto> BULL_HIGH_VOL) else mapping);
          mapping = (if length bl \<ge> 2 then mapping(bl ! 1 \<mapsto> BULL_LOW_VOL) else mapping);
          mapping = (if length br \<ge> 1 then mapping(br ! 0 \<mapsto> BEAR_HIGH_VOL) else mapping);
          mapping = (if length br \<ge> 2 then mapping(br ! 1 \<mapsto> BEAR_LOW_VOL) else mapping)
      in mapping)"

definition map_states :: "nat \<Rightarrow> nat list \<Rightarrow> feature_row list \<Rightarrow> (nat \<rightharpoonup> MarketRegime)" where
  "map_states n states features =
     assign_regimes (bulls n states features) (bears n states features)"

text \<open>
  \<open>fit\<close>. \<open>features\<close> is the matrix \<open>_build_features\<close> returned. \<open>decoded\<close> stands for
  the two library calls \<open>self._hmm.fit(features)\<close> and \<open>self._hmm.predict(features)\<close>:
  \<open>Inl\<close> when one of them raised, which leaves the instance as it was, \<open>Inr\<close> the decoded
  states otherwise.
\<close>

definition fit :: "RegimeDetector \<Rightarrow> feature_row list \<Rightarrow> error + nat list \<Rightarrow> error + RegimeDetector" where
  "fit d features decoded =
     (case decoded of
        Inl e \<Rightarrow> Inl e
      | Inr states \<Rightarrow>
          Inr (d\<lparr>state_map := map_states (n_regimes d) states features, is_fitted := True\<rparr>))"

text \<open>\<open>np.argmax\<close>: the first index of the largest entry.\<close>

definition argmax :: "real list \<Rightarrow> nat" where
  "argmax xs =
     fst (fold (\<lambda>(i, x) (bi, bx). if x > bx then (i, x) else (bi, bx))
            (enumerate 1 (tl xs)) (0, hd xs))"

text \<open>
  \<open>predict\<close>. \<open>posteriors\<close> is \<open>self._hmm.predict_proba(features)\<close>, one row of state
  probabilities per feature row. \<open>posteriors[-1]\<close> raises on an empty matrix and
  \<open>np.argmax\<close> on an empty row.
\<close>

definition predict :: "RegimeDetector \<Rightarrow> real list list \<Rightarrow> error + RegimePrediction" where
  "predict d posteriors =
     (if \<not> is_fitted d then Inl NotFitted
      else if posteriors = [] then Inl IndexError
      else
        let last_posterior = last posteriors
        in if last_posterior = [] then Inl ValueError
           else
             let raw_state = argmax last_posterior;
                 mapped_regime = (case state_map d raw_state of
                                    None \<Rightarrow> BULL_LOW_VOL | Some r \<Rightarrow> r);
                 all_probs =
                   fold (\<lambda>(raw_idx, prob) m.
                           m(REGIME_LABELS (case state_map d raw_idx of
                                              None \<Rightarrow> MarketRegime_of (raw_idx mod 4)
                                            | Some r \<Rightarrow> r) \<mapsto> prob))
                        (enumerate 0 last_posterior) Map.empty
             in Inr \<lparr>regime = mapped_regime, label = REGIME_LABELS mapped_regime,
                     probability = last_posterior ! raw_state,
                     all_probabilities = all_probs\<rparr>)"

text \<open>\<open>get_transition_matrix\<close>; \<open>transmat\<close> is \<open>self._hmm.transmat_\<close>.\<close>

definition get_transition_matrix :: "RegimeDetector \<Rightarrow> real list list \<Rightarrow> error + real list list" where
  "get_transition_matrix d transmat =
     (if \<not> is_fitted d then Inl NotFitted else Inr transmat)"

text \<open>\<open>get_state_map\<close> has no \<open>raise\<close>: it relabels whatever \<open>_state_map\<close> holds.\<close>

definition get_state_map :: "RegimeDetector \<Rightarrow> error + (nat \<rightharpoonup> string)" where
  "get_state_map d = Inr (\<lambda>k. map_option REGIME_LABELS (state_map d k))"

text \<open>
  The regime-mapping contract in the words of the specification, written without the
  definitions above and to be compared with \<open>map_states\<close>. Feature row \<open>i\<close> is assigned
  to the raw state \<open>states ! i\<close>. The mean return and the mean volatility of a raw state
  are the sum of the first, respectively second, column over the rows assigned to it,
  divided by their number, and 0 for a state with no row.
\<close>

definition assigned_rows :: "nat list \<Rightarrow> feature_row list \<Rightarrow> nat \<Rightarrow> feature_row list" where
  "assigned_rows states features s =
     map (\<lambda>i. features ! i) (filter (\<lambda>i. states ! i = s) [0..<length features])"

definition mean_return :: "nat list \<Rightarrow> feature_row list \<Rightarrow> nat \<Rightarrow> real" where
  "mean_return states features s =
     (if assigned_rows states features s = [] then 0
      else (\<Sum>row \<leftarrow> assigned_rows states features s. fst row)
             / real (length (assigned_rows states features s)))"

definition mean_volatility :: "nat list \<Rightarrow> feature_row list \<Rightarrow> nat \<Rightarrow> real" where
  "mean_volatility states features s =
     (if assigned_rows states features s = [] then 0
      else (\<Sum>row \<leftarrow> assigned_rows states features s. fst (snd row))
             / real (length (assigned_rows states features s)))"

text \<open>
  Ranking in descending order of a key, entries of equal key in the order they had: the
  ascending stable sort of the reversed list, reversed.
\<close>

definition rank_desc :: "('a \<Rightarrow> real) \<Rightarrow> 'a list \<Rightarrow> 'a list" where
  "rank_desc key xs = rev (sort_key key (rev xs))"

text \<open>
  The states 0 to \<open>n - 1\<close> ranked by mean return; the top \<open>n div 2\<close> are the bulls and the
  rest the bears; each group ranked by mean volatility.
\<close>

definition spec_bulls :: "nat \<Rightarrow> nat list \<Rightarrow> feature_row list \<Rightarrow> nat list" where
  "spec_bulls n states features =
     rank_desc (mean_volatility states features)
       (take (n div 2) (rank_desc (mean_return states features) [0..<n]))"

definition spec_bears :: "nat \<Rightarrow> nat list \<Rightarrow> feature_row list \<Rightarrow> nat list" where
  "spec_bears n states features =
     rank_desc (mean_volatility states features)
       (drop (n div 2) (rank_desc (mean_return states features) [0..<n]))"

text \<open>
  Of the two groups the first bull is BULL\_HIGH\_VOL, the second BULL\_LOW\_VOL, the first
  bear BEAR\_HIGH\_VOL, the second BEAR\_LOW\_VOL, and no other state has a regime.
\<close>

definition two_stage_rule :: "nat list \<Rightarrow> nat list \<Rightarrow> (nat \<rightharpoonup> MarketRegime)" where
  "two_stage_rule bl br s =
     (if length bl \<ge> 1 \<and> s = bl ! 0 then Some BULL_HIGH_VOL
      else if length bl \<ge> 2 \<and> s = bl ! 1 then Some BULL_LOW_VOL
      else if length br \<ge> 1 \<and> s = br ! 0 then Some BEAR_HIGH_VOL
      else if length br \<ge> 2 \<and> s = br ! 1 then Some BEAR_LOW_VOL
      else None)"

definition spec_state_map :: "nat \<Rightarrow> nat list \<Rightarrow> feature_row list \<Rightarrow> (nat \<rightharpoonup> MarketRegime)" where
  "spec_state_map n states features =
     two_stage_rule (spec_bulls n states features) (spec_bears n states features)"

section \<open>models/portfolio\_optimizer.py\<close>

type_synonym matrix = "real list list"

text \<open>The product \<open>@\<close> of two vectors, of a matrix and a vector, and of a vector and a
  matrix.\<close>

definition dot :: "real list \<Rightarrow> real list \<Rightarrow> real" where
  "dot v w = sum_list (map2 (*) v w)"

definition matvec :: "matrix \<Rightarrow> real list \<Rightarrow> real list" where
  "matvec m w = map (\<lambda>row. dot row w) m"


text \<open>\<open>returns.shape[1]\<close> and \<open>returns.mean(axis=0)\<close> of a matrix with at least one row.\<close>

definition n_assets_of :: "matrix \<Rightarrow> nat" where
  "n_assets_of returns = length (hd returns)"

definition column_means :: "matrix \<Rightarrow> real list" where
  "column_means returns = map mean (transpose returns)"

text \<open>\<open>np.ones(n_assets) / n_assets\<close>.\<close>

definition equal_weights :: "nat \<Rightarrow> real list" where
  "equal_weights n = replicate n (1 / real n)"




text \<open>
  \<open>np.percentile(a, q)\<close> with numpy's default linear interpolation, for a non-empty
  \<open>a\<close> and \<open>0 \<le> q \<le> 100\<close>: the value at the fractional position \<open>q / 100 * (n - 1)\<close>
  of the sorted data.
\<close>

definition percentile :: "real list \<Rightarrow> real \<Rightarrow> real" where
  "percentile a q =
     (let s = sort a;
          n = length s;
          pos = q / 100 * real (n - 1);
          lo = nat \<lfloor>pos\<rfloor>;
          hi = min (lo + 1) (n - 1);
          frac = pos - real lo
      in s ! lo + frac * (s ! hi - s ! lo))"

record EfficientFrontierPoint =
  risk :: real
  ret :: real
  weights :: "real list"

text \<open>What \<open>scipy.optimize.minimize\<close> returns, as far as the source reads it.\<close>

record OptimizeResult =
  success :: bool
  x :: "real list"




text \<open>
  \<open>np.random.default_rng(seed)\<close>. A generator is identified by the seed material that
  fixes its stream. Without a seed numpy draws that material from the operating system,
  here \<open>os_entropy\<close>; with a seed the operating system is not consulted.
\<close>

definition default_rng :: "nat \<Rightarrow> nat option \<Rightarrow> nat" where
  "default_rng os_entropy seed = (case seed of None \<Rightarrow> os_entropy | Some s \<Rightarrow> s)"

text \<open>
  \<open>monte_carlo_var\<close>. \<open>multivariate_normal\<close> is the generator's method: from the
  generator, the mean, the covariance and \<open>size\<close> to the matrix of samples.
  \<open>os_entropy\<close> is the ambient randomness at the time of the call.
\<close>

definition monte_carlo_var ::
  "(matrix \<Rightarrow> matrix) \<Rightarrow> (nat \<Rightarrow> real list \<Rightarrow> matrix \<Rightarrow> nat \<Rightarrow> matrix) \<Rightarrow> nat \<Rightarrow>
   matrix \<Rightarrow> real \<Rightarrow> nat \<Rightarrow> nat \<Rightarrow> real" where
  "monte_carlo_var np_cov multivariate_normal os_entropy returns confidence horizon n_sim =
     (let n_assets = n_assets_of returns;
          mu = column_means returns;
          cov = np_cov returns;
          weights = equal_weights n_assets;
          rng = default_rng os_entropy (Some 42);
          simulated = multivariate_normal rng (map (\<lambda>m. m * real horizon) mu)
                        (map (map (\<lambda>c. c * real horizon)) cov) n_sim;
          portfolio_returns = matvec simulated weights;
          var = - percentile portfolio_returns ((1 - confidence) * 100)
      in max var 0)"

text \<open>\<open>cvar\<close>: the negated mean of the portfolio returns at or below the percentile.
  \<open>weights_opt\<close> is the optional argument \<open>weights\<close>.\<close>

definition cvar :: "matrix \<Rightarrow> real \<Rightarrow> real list option \<Rightarrow> real" where
  "cvar returns confidence weights_opt =
     (let n_assets = n_assets_of returns;
          w = (case weights_opt of None \<Rightarrow> equal_weights n_assets | Some w \<Rightarrow> w);
          port_returns = matvec returns w;
          cutoff = percentile port_returns ((1 - confidence) * 100);
          tail = filter (\<lambda>r. r \<le> cutoff) port_returns
      in if length tail = 0 then 0 else - mean tail)"

section \<open>Properties of the anomaly detector\<close>

text \<open>The two clamps bring every value but NaN into the unit interval.\<close>

lemma clamp_unit_or_nan: "unit_or_nan (py_max (py_min v 1) 0)"
  by (cases v) (auto simp: unit_or_nan_def py_min_def py_max_def)

text \<open>The flash-crash and pump severities have no lower clamp and are never NaN: the
  detector's test on the same return excludes NaN and the wrong sign.\<close>

lemma scan_flash_crash_severity:
  "e \<in> set (scan_flash_crash md) \<Longrightarrow> in_unit (severity e)"
proof -
  have "fp_le r (- (5 / 100)) \<Longrightarrow> in_unit (py_min (fp_div_pos (fp_abs r) (20 / 100)) 1)" for r
    by (cases r) (auto simp: in_unit_def py_min_def)
  then show "e \<in> set (scan_flash_crash md) \<Longrightarrow> in_unit (severity e)"
    by (auto simp: scan_flash_crash_def flash_crash_default_def detect_flash_crash_def Let_def
             split: option.splits if_splits)
qed

lemma scan_pump_severity:
  "e \<in> set (scan_pump md) \<Longrightarrow> in_unit (severity e)"
proof -
  have "fp_ge r (10 / 100) \<Longrightarrow> in_unit (py_min (fp_div_pos r (30 / 100)) 1)" for r
    by (cases r) (auto simp: in_unit_def py_min_def)
  then show "e \<in> set (scan_pump md) \<Longrightarrow> in_unit (severity e)"
    by (auto simp: scan_pump_def pump_default_def detect_pump_def Let_def
             split: option.splits if_splits)
qed

lemma scan_volume_spike_severity:
  "e \<in> set (scan_volume_spike md) \<Longrightarrow> unit_or_nan (severity e)"
  by (auto simp: scan_volume_spike_def Let_def clamp_unit_or_nan split: option.splits if_splits)

lemma scan_liquidity_crisis_severity:
  "e \<in> set (scan_liquidity_crisis md) \<Longrightarrow> unit_or_nan (severity e)"
  by (auto simp: scan_liquidity_crisis_def Let_def clamp_unit_or_nan split: option.splits if_splits)

text \<open>So a severity of \<open>scan_all\<close> is in the unit interval or NaN, and never infinite.\<close>

lemma scan_all_severity:
  "e \<in> set (scan_all md) \<Longrightarrow> unit_or_nan (severity e)"
proof -
  have "in_unit v \<Longrightarrow> unit_or_nan v" for v
    by (cases v) (auto simp: in_unit_def unit_or_nan_def)
  then show "e \<in> set (scan_all md) \<Longrightarrow> unit_or_nan (severity e)"
    using scan_flash_crash_severity scan_pump_severity
      scan_volume_spike_severity scan_liquidity_crisis_severity
    unfolding scan_all_def by fastforce
qed

lemma scan_flash_crash_types:
  "map anomaly_type (scan_flash_crash md) =
     (if \<exists>p. prices md = Some p \<and> flash_crash_default p then [FLASH_CRASH] else [])"
  by (auto simp: scan_flash_crash_def Let_def split: option.splits)

lemma scan_pump_types:
  "map anomaly_type (scan_pump md) =
     (if \<exists>p v. prices md = Some p \<and> volumes md = Some v \<and> pump_default p v
      then [PUMP] else [])"
  by (auto simp: scan_pump_def Let_def split: option.splits)

lemma scan_volume_spike_types:
  "map anomaly_type (scan_volume_spike md) = [] \<or>
   map anomaly_type (scan_volume_spike md) = [VOLUME_SPIKE]"
  by (auto simp: scan_volume_spike_def Let_def split: option.splits)

lemma scan_liquidity_crisis_types:
  "map anomaly_type (scan_liquidity_crisis md) = [] \<or>
   map anomaly_type (scan_liquidity_crisis md) = [LIQUIDITY_CRISIS]"
  by (auto simp: scan_liquidity_crisis_def Let_def split: option.splits)

text \<open>One return cannot be at most minus five percent and at least ten percent.\<close>

lemma flash_crash_excludes_pump:
  "flash_crash_default p \<Longrightarrow> \<not> pump_default p v"
proof -
  have "fp_le r (- (5 / 100)) \<Longrightarrow> \<not> fp_ge r (10 / 100)" for r
    by (cases r) auto
  then show "flash_crash_default p \<Longrightarrow> \<not> pump_default p v"
    by (auto simp: flash_crash_default_def pump_default_def detect_flash_crash_def
                   detect_pump_def Let_def split: if_splits)
qed

lemma flash_pump_types:
  "\<not> (map anomaly_type (scan_flash_crash md) = [FLASH_CRASH] \<and>
      map anomaly_type (scan_pump md) = [PUMP])"
  using flash_crash_excludes_pump
  by (auto simp: scan_flash_crash_types scan_pump_types split: if_splits)

lemma scan_all_types:
  "map anomaly_type (scan_all md) =
     map anomaly_type (scan_flash_crash md) @ map anomaly_type (scan_pump md) @
     map anomaly_type (scan_volume_spike md) @ map anomaly_type (scan_liquidity_crisis md)"
  by (simp add: scan_all_def)

lemma four_blocks:
  assumes a: "a = [] \<or> a = [FLASH_CRASH]" and b: "b = [] \<or> b = [PUMP]"
    and ab: "\<not> (a = [FLASH_CRASH] \<and> b = [PUMP])"
    and c: "c = [] \<or> c = [VOLUME_SPIKE]" and d: "d = [] \<or> d = [LIQUIDITY_CRISIS]"
  shows "\<not> (FLASH_CRASH \<in> set (a @ b @ c @ d) \<and> PUMP \<in> set (a @ b @ c @ d))
    \<and> distinct (a @ b @ c @ d) \<and> length (a @ b @ c @ d) \<le> 4"
proof -
  have la: "length a \<le> 1" and lb: "length b \<le> 1" and lc: "length c \<le> 1" and ld: "length d \<le> 1"
    using a b c d by auto
  have sa: "set a \<subseteq> {FLASH_CRASH}" and sb: "set b \<subseteq> {PUMP}"
    and sc: "set c \<subseteq> {VOLUME_SPIKE}" and sd: "set d \<subseteq> {LIQUIDITY_CRISIS}"
    using a b c d by auto
  have da: "distinct a" "distinct b" "distinct c" "distinct d"
    using a b c d by auto
  have 1: "length (a @ b @ c @ d) \<le> 4" using la lb lc ld by simp
  have 2: "distinct (a @ b @ c @ d)" using da sa sb sc sd by auto
  have "FLASH_CRASH \<in> set (a @ b @ c @ d) \<Longrightarrow> a = [FLASH_CRASH]"
    using a sb sc sd by auto
  moreover have "PUMP \<in> set (a @ b @ c @ d) \<Longrightarrow> b = [PUMP]"
    using b sa sc sd by auto
  ultimately show ?thesis using 1 2 ab by blast
qed

text \<open>
  C8. Twenty volume bars of \<open>-1e-10\<close> followed by a bar of 0: the mean plus \<open>1e-10\<close> is
  zero, the detector's test \<open>0 >= 3 * 0\<close> passes, the ratio is \<open>0.0 / 0.0\<close>, and the two
  clamps hand the NaN on: the severity of the volume-spike event is NaN, not a number
  between 0 and 1. Eleven depth snapshots of the same shape do the same to the
  liquidity-crisis severity.
\<close>

theorem C8_severity_nan:
  "scan_all \<lparr>prices = None,
             volumes = Some (replicate 20 (- (1 / 10 ^ 10)) @ [0]),
             orderbook_depth = Some (replicate 10 (- (1 / 10 ^ 10)) @ [0])\<rparr>
   = [\<lparr>anomaly_type = VOLUME_SPIKE, severity = NaN, details = [(''volume_ratio'', NaN)]\<rparr>,
      \<lparr>anomaly_type = LIQUIDITY_CRISIS, severity = NaN, details = [(''depth_ratio'', NaN)]\<rparr>]"
  by code_simp

text \<open>
  C9. With the default threshold of minus five percent and window 5, \<open>detect_flash_crash\<close>
  is true on the prices 100, 100, 100, 100, 100, 94 and false on 100, 100, 100, 100, 100, 96.
\<close>

theorem C9_flash_crash_examples:
  "detect_flash_crash [100, 100, 100, 100, 100, 94] (- (5 / 100)) 5 \<and>
   \<not> detect_flash_crash [100, 100, 100, 100, 100, 96] (- (5 / 100)) 5"
  by (simp add: detect_flash_crash_def from_end_def eps_def np_div_def)

text \<open>
  C10. With the default thresholds \<open>scan_all\<close> never returns a FLASH\_CRASH event together
  with a PUMP event, returns at most one event of each anomaly type, and so at most four
  events.
\<close>

theorem C10_flash_and_pump_exclusive:
  "\<not> (FLASH_CRASH \<in> anomaly_type ` set (scan_all md) \<and>
      PUMP \<in> anomaly_type ` set (scan_all md))
   \<and> distinct (map anomaly_type (scan_all md))
   \<and> length (scan_all md) \<le> 4"
proof -
  have a: "map anomaly_type (scan_flash_crash md) = [] \<or>
           map anomaly_type (scan_flash_crash md) = [FLASH_CRASH]"
    by (simp add: scan_flash_crash_types)
  have b: "map anomaly_type (scan_pump md) = [] \<or> map anomaly_type (scan_pump md) = [PUMP]"
    by (simp add: scan_pump_types)
  note fb = four_blocks [OF a b flash_pump_types scan_volume_spike_types [of md]
      scan_liquidity_crisis_types [of md], folded scan_all_types]
  show ?thesis using fb by simp
qed

text \<open>A fifteen percent rise on four times the mean volume, with the order book at a tenth of
  its mean depth.\<close>

theorem C10_exclusive_witness:
  "map anomaly_type
     (scan_all \<lparr>prices = Some [100, 100, 100, 100, 100, 115],
                volumes = Some [10, 10, 10, 10, 10, 40],
                orderbook_depth = Some (replicate 10 10 @ [1])\<rparr>) = [PUMP, LIQUIDITY_CRISIS]
   \<and> \<not> (FLASH_CRASH \<in> anomaly_type ` set
           (scan_all \<lparr>prices = Some [100, 100, 100, 100, 100, 115],
                      volumes = Some [10, 10, 10, 10, 10, 40],
                      orderbook_depth = Some (replicate 10 10 @ [1])\<rparr>))"
  using C10_flash_and_pump_exclusive
    [of "\<lparr>prices = Some [100, 100, 100, 100, 100, 115],
          volumes = Some [10, 10, 10, 10, 10, 40],
          orderbook_depth = Some (replicate 10 10 @ [1])\<rparr>"]
  by (simp add: scan_all_def scan_flash_crash_def scan_pump_def scan_volume_spike_def
        scan_liquidity_crisis_def flash_crash_default_def pump_default_def
        volume_spike_default_def liquidity_crisis_default_def detect_flash_crash_def
        detect_pump_def detect_volume_spike_def detect_liquidity_crisis_def
        from_end_def slice_before_last_def mean_def eps_def np_div_def Let_def numeral_eq_Suc)

section \<open>Properties of the regime detector\<close>

lemma set_sort_desc: "set (sort_desc key xs) = set xs"
  by (simp add: sort_desc_def)

lemma distinct_sort_desc: "distinct (sort_desc key xs) = distinct xs"
  by (simp add: sort_desc_def)

lemma length_sort_desc: "length (sort_desc key xs) = length xs"
  by (simp add: sort_desc_def)

lemma sorted_sort_desc: "sorted_wrt (\<lambda>a b. key a \<ge> key b) (sort_desc key xs)"
proof -
  have "sorted (map (\<lambda>x. - key x) (sort_desc key xs))"
    unfolding sort_desc_def by (rule sorted_sort_key)
  then show ?thesis by (simp add: sorted_map)
qed

lemma sorted_states_props:
  "distinct (sorted_states n states features)"
  "set (sorted_states n states features) = {0..<n}"
  "length (sorted_states n states features) = n"
  by (simp_all add: sorted_states_def set_sort_desc distinct_sort_desc length_sort_desc)

lemma bulls_bears_partition:
  "distinct (bulls n states features @ bears n states features)"
  "set (bulls n states features @ bears n states features) = {0..<n}"
proof -
  let ?ss = "sorted_states n states features"
  have "distinct (take (n div 2) ?ss @ drop (n div 2) ?ss)"
    by (simp only: append_take_drop_id sorted_states_props)
  then have "distinct (take (n div 2) ?ss)" "distinct (drop (n div 2) ?ss)"
    "set (take (n div 2) ?ss) \<inter> set (drop (n div 2) ?ss) = {}"
    unfolding distinct_append by blast+
  then show "distinct (bulls n states features @ bears n states features)"
    by (simp add: bulls_def bears_def set_sort_desc distinct_sort_desc)
  have "set (take (n div 2) ?ss) \<union> set (drop (n div 2) ?ss) = {0..<n}"
    by (metis append_take_drop_id set_append sorted_states_props(2))
  then show "set (bulls n states features @ bears n states features) = {0..<n}"
    by (simp add: bulls_def bears_def set_sort_desc)
qed

lemma length_bulls: "length (bulls n states features) = n div 2"
  by (simp add: bulls_def length_sort_desc sorted_states_props)

lemma length_bears: "length (bears n states features) = n - n div 2"
  by (simp add: bears_def length_sort_desc sorted_states_props)

lemma bulls_above_bears:
  assumes "b \<in> set (bulls n states features)" "r \<in> set (bears n states features)"
  shows "fst (state_means states features r) \<le> fst (state_means states features b)"
proof -
  let ?ss = "sorted_states n states features"
  let ?k = "\<lambda>s. fst (state_means states features s)"
  have "sorted_wrt (\<lambda>a b. ?k a \<ge> ?k b) (take (n div 2) ?ss @ drop (n div 2) ?ss)"
    unfolding append_take_drop_id sorted_states_def by (rule sorted_sort_desc)
  moreover have "b \<in> set (take (n div 2) ?ss)" "r \<in> set (drop (n div 2) ?ss)"
    using assms by (simp_all add: bulls_def bears_def set_sort_desc)
  ultimately show ?thesis
    unfolding sorted_wrt_append by blast
qed

lemma bulls_by_volatility:
  "sorted_wrt (\<lambda>a b. snd (state_means states features a) \<ge> snd (state_means states features b))
     (bulls n states features)"
  unfolding bulls_def by (rule sorted_sort_desc)

lemma bears_by_volatility:
  "sorted_wrt (\<lambda>a b. snd (state_means states features a) \<ge> snd (state_means states features b))
     (bears n states features)"
  unfolding bears_def by (rule sorted_sort_desc)

lemma list_012:
  obtains "xs = []" | a where "xs = [a]" | a b r where "xs = a # b # r"
  by (cases xs; cases "tl xs"; auto)

lemma assign_regimes_rule:
  assumes "distinct (bl @ br)"
  shows "assign_regimes bl br = two_stage_rule bl br"
proof (cases bl rule: list_012)
  case 1
  then show ?thesis
    using assms
    by (cases br rule: list_012) (auto simp: assign_regimes_def two_stage_rule_def fun_eq_iff)
next
  case (2 a)
  then show ?thesis
    using assms
    by (cases br rule: list_012) (auto simp: assign_regimes_def two_stage_rule_def fun_eq_iff)
next
  case (3 a b r)
  then show ?thesis
    using assms
    by (cases br rule: list_012) (auto simp: assign_regimes_def two_stage_rule_def fun_eq_iff)
qed

lemma map_states_rule:
  "map_states n states features =
     two_stage_rule (bulls n states features) (bears n states features)"
  unfolding map_states_def by (rule assign_regimes_rule) (rule bulls_bears_partition)


text \<open>The two formulations of a descending stable sort agree.\<close>

lemma rank_desc_eq: "rank_desc key xs = sort_desc key xs"
proof -
  let ?ys = "rev (sort_key key (rev xs))"
  have 1: "mset ?ys = mset xs" by simp
  have 2: "filter (\<lambda>a. - key k = - key a) ?ys = filter (\<lambda>a. - key k = - key a) xs" for k
  proof -
    have "filter (\<lambda>a. key a = key k) (sort_key key (rev xs)) = filter (\<lambda>a. key a = key k) (rev xs)"
      by (rule sort_key_stable)
    then have "rev (filter (\<lambda>a. key a = key k) (sort_key key (rev xs)))
                 = rev (filter (\<lambda>a. key a = key k) (rev xs))"
      by simp
    then have "filter (\<lambda>a. key a = key k) ?ys = filter (\<lambda>a. key a = key k) xs"
      by (simp add: rev_filter)
    moreover have "(\<lambda>a. - key k = - key a) = (\<lambda>a. key a = key k)" by auto
    ultimately show ?thesis by simp
  qed
  have "sorted (map key (sort_key key (rev xs)))" by (rule sorted_sort_key)
  then have "sorted_wrt (\<lambda>a b. key a \<le> key b) (sort_key key (rev xs))"
    by (simp add: sorted_map)
  then have "sorted_wrt (\<lambda>a b. - key a \<le> - key b) ?ys"
    by (simp add: sorted_wrt_rev)
  then have 3: "sorted (map (\<lambda>a. - key a) ?ys)"
    by (simp add: sorted_map)
  have "sort_key (\<lambda>a. - key a) xs = ?ys"
    by (rule properties_for_sort_key) (use 1 2 3 in auto)
  then show ?thesis by (simp add: rank_desc_def sort_desc_def)
qed

text \<open>The rows that the mask \<open>states == s\<close> selects are the rows assigned to \<open>s\<close>, so the
  dictionary \<open>means\<close> holds the mean return and the mean volatility of each state.\<close>

lemma masked_rows:
  assumes "length states = length features"
  shows "map snd (filter (\<lambda>(st, row). st = s) (zip states features))
           = assigned_rows states features s"
proof -
  have z: "zip states features = map (\<lambda>i. (states ! i, features ! i)) [0..<length features]"
    using assms by (intro nth_equalityI) simp_all
  show ?thesis
    unfolding z assigned_rows_def by (simp add: filter_map comp_def)
qed

lemma state_means_spec:
  assumes "length states = length features"
  shows "state_means states features s
           = (mean_return states features s, mean_volatility states features s)"
  unfolding state_means_def masked_rows [OF assms]
  by (simp add: mean_return_def mean_volatility_def mean_def Let_def)

lemma bulls_spec:
  assumes "length states = length features"
  shows "bulls n states features = spec_bulls n states features"
    and "bears n states features = spec_bears n states features"
  by (simp_all add: bulls_def bears_def sorted_states_def spec_bulls_def spec_bears_def
        rank_desc_eq state_means_spec [OF assms])

lemma unassigned_mean:
  assumes "s \<notin> set states" "length states = length features"
  shows "mean_return states features s = 0" "mean_volatility states features s = 0"
proof -
  have "filter (\<lambda>i. states ! i = s) [0..<length features] = []"
    using assms by (auto simp: filter_empty_conv)
  then have "assigned_rows states features s = []"
    by (simp add: assigned_rows_def)
  then show "mean_return states features s = 0" "mean_volatility states features s = 0"
    by (simp_all add: mean_return_def mean_volatility_def)
qed

text \<open>
  C1. After a successful \<open>fit\<close>, whose decoded states are one per feature row, the state
  map is the two-stage sort rule computed from the per-state means of the rows assigned
  to each state. The bulls and the bears of the rule together are the raw states 0 to
  \<open>n_regimes - 1\<close>, each once; the bulls are \<open>n_regimes div 2\<close> states and none of them has
  a lower mean return than a bear; each group is in descending order of mean volatility;
  the first two states of each group get the regimes of the rule and no other state gets
  one; a state with no row has the means 0 and 0.
\<close>

theorem C1_map_states_two_stage:
  assumes "fit d features (Inr states) = Inr d'" and "length states = length features"
  shows "state_map d' = spec_state_map (n_regimes d) states features
       \<and> distinct (spec_bulls (n_regimes d) states features
                    @ spec_bears (n_regimes d) states features)
       \<and> set (spec_bulls (n_regimes d) states features
               @ spec_bears (n_regimes d) states features) = {0..<n_regimes d}
       \<and> length (spec_bulls (n_regimes d) states features) = n_regimes d div 2
       \<and> (\<forall>b \<in> set (spec_bulls (n_regimes d) states features).
            \<forall>r \<in> set (spec_bears (n_regimes d) states features).
              mean_return states features r \<le> mean_return states features b)
       \<and> sorted_wrt (\<lambda>a b. mean_volatility states features b \<le> mean_volatility states features a)
            (spec_bulls (n_regimes d) states features)
       \<and> sorted_wrt (\<lambda>a b. mean_volatility states features b \<le> mean_volatility states features a)
            (spec_bears (n_regimes d) states features)
       \<and> (\<forall>s. s \<notin> set states \<longrightarrow>
             mean_return states features s = 0 \<and> mean_volatility states features s = 0)"
proof -
  let ?n = "n_regimes d"
  note bl = bulls_spec(1) [OF assms(2), of ?n] and br = bulls_spec(2) [OF assms(2), of ?n]
  note sm = state_means_spec [OF assms(2)]
  from assms(1) have "state_map d' = map_states ?n states features"
    by (auto simp: fit_def)
  then have 1: "state_map d' = spec_state_map ?n states features"
    by (simp only: map_states_rule bl br spec_state_map_def)
  have 2: "distinct (spec_bulls ?n states features @ spec_bears ?n states features)"
    and 3: "set (spec_bulls ?n states features @ spec_bears ?n states features) = {0..<?n}"
    using bulls_bears_partition [of ?n states features] by (simp_all only: bl br)
  have 4: "length (spec_bulls ?n states features) = ?n div 2"
    using length_bulls [of ?n states features] by (simp only: bl)
  have 5: "\<forall>b \<in> set (spec_bulls ?n states features).
            \<forall>r \<in> set (spec_bears ?n states features).
              mean_return states features r \<le> mean_return states features b"
    using bulls_above_bears [of _ ?n states features] by (simp add: bl br sm)
  have 6: "sorted_wrt (\<lambda>a b. mean_volatility states features b \<le> mean_volatility states features a)
            (spec_bulls ?n states features)"
    using bulls_by_volatility [of states features ?n] by (simp add: bl sm)
  have 7: "sorted_wrt (\<lambda>a b. mean_volatility states features b \<le> mean_volatility states features a)
            (spec_bears ?n states features)"
    using bears_by_volatility [of states features ?n] by (simp add: br sm)
  have 8: "\<forall>s. s \<notin> set states \<longrightarrow>
             mean_return states features s = 0 \<and> mean_volatility states features s = 0"
    using unassigned_mean [OF _ assms(2)] by blast
  from 1 2 3 4 5 6 7 8 show ?thesis by (intro conjI)
qed

text \<open>
  Five feature rows decoded as the states 0, 1, 2, 1, 0 of a four-state model. The mean
  returns are 3, -2, 1 and 0 percent (state 3 has no row), so the bulls are 0 and 2 and
  the bears 3 and 1; by volatility the bulls are ordered 2, 0 and the bears 1, 3.
\<close>

theorem C1_two_stage_witness:
  "(case fit (RegimeDetector_init 4 20)
           [(2 / 100, 1 / 100, 0), (- (1 / 100), 3 / 100, 0), (1 / 100, 5 / 100, 0),
            (- (3 / 100), 5 / 100, 0), (4 / 100, 3 / 100, 0)]
           (Inr [0, 1, 2, 1, 0]) of
      Inl e \<Rightarrow> False
    | Inr d' \<Rightarrow>
        state_map d' = two_stage_rule [2, 0] [1, 3] \<and>
        map (state_map d') [0, 1, 2, 3] =
          [Some BULL_LOW_VOL, Some BEAR_HIGH_VOL, Some BULL_HIGH_VOL, Some BEAR_LOW_VOL])"
proof -
  let ?F = "[(2 / 100, 1 / 100, 0), (- (1 / 100), 3 / 100, 0), (1 / 100, 5 / 100, 0),
             (- (3 / 100), 5 / 100, 0), (4 / 100, 3 / 100, 0)] :: feature_row list"
  let ?S = "[0, 1, 2, 1, 0] :: nat list"
  let ?D = "(RegimeDetector_init 4 20)\<lparr>state_map := map_states 4 ?S ?F, is_fitted := True\<rparr>"
  have bl: "spec_bulls 4 ?S ?F = [2, 0]" by code_simp
  have br: "spec_bears 4 ?S ?F = [1, 3]" by code_simp
  have f: "fit (RegimeDetector_init 4 20) ?F (Inr ?S) = Inr ?D"
    by (simp add: fit_def RegimeDetector_init_def)
  have len: "length ?S = length ?F" by simp
  from C1_map_states_two_stage [OF f len]
  have "state_map ?D = spec_state_map 4 ?S ?F"
    by (simp add: RegimeDetector_init_def)
  then have sm: "state_map ?D = two_stage_rule [2, 0] [1, 3]"
    by (simp only: spec_state_map_def bl br)
  have "map (two_stage_rule [2, 0] [1, 3]) [0, 1, 2, 3] =
          [Some BULL_LOW_VOL, Some BEAR_HIGH_VOL, Some BULL_HIGH_VOL, Some BEAR_LOW_VOL]"
    by (simp add: two_stage_rule_def)
  then have m: "map (state_map ?D) [0, 1, 2, 3] =
          [Some BULL_LOW_VOL, Some BEAR_HIGH_VOL, Some BULL_HIGH_VOL, Some BEAR_LOW_VOL]"
    by (simp only: sm)
  show ?thesis
    unfolding f sum.case by (rule conjI [OF sm m])
qed

text \<open>\<open>argmax\<close> is the first index of a largest entry.\<close>

lemma argmax_fold:
  fixes pre :: "real list"
  assumes "bi < length pre" "bx = pre ! bi" "\<forall>j<length pre. pre ! j \<le> bx" "\<forall>j<bi. pre ! j < bx"
  shows "case fold (\<lambda>(i, x) (bi, bx). if x > bx then (i, x) else (bi, bx))
                (enumerate (length pre) ys) (bi, bx) of
           (k, v) \<Rightarrow> k < length (pre @ ys) \<and> v = (pre @ ys) ! k
                    \<and> (\<forall>j<length (pre @ ys). (pre @ ys) ! j \<le> v)
                    \<and> (\<forall>j<k. (pre @ ys) ! j < v)"
  using assms
proof (induction ys arbitrary: pre bi bx)
  case Nil
  then show ?case by simp
next
  case (Cons y ys)
  let ?pre = "pre @ [y]"
  let ?b = "if y > bx then (length pre, y) else (bi, bx)"
  have 1: "fst ?b < length ?pre" using Cons.prems(1) by simp
  have 2: "snd ?b = ?pre ! fst ?b" using Cons.prems(1,2) by (simp add: nth_append)
  have 3: "\<forall>j<length ?pre. ?pre ! j \<le> snd ?b"
  proof (intro allI impI)
    fix j assume j: "j < length ?pre"
    show "?pre ! j \<le> snd ?b"
    proof (cases "j < length pre")
      case True
      then have "pre ! j \<le> bx" using Cons.prems(3) by blast
      then show ?thesis using True by (auto simp: nth_append)
    next
      case False
      then have "j = length pre" using j by simp
      then show ?thesis by (simp add: nth_append)
    qed
  qed
  have 4: "\<forall>j<fst ?b. ?pre ! j < snd ?b"
  proof (intro allI impI)
    fix j assume j: "j < fst ?b"
    show "?pre ! j < snd ?b"
    proof (cases "y > bx")
      case True
      then have jl: "j < length pre" using j by simp
      then have "pre ! j \<le> bx" using Cons.prems(3) by blast
      then show ?thesis using True jl by (auto simp: nth_append)
    next
      case False
      then have jb: "j < bi" using j by simp
      then have "pre ! j < bx" using Cons.prems(4) by blast
      moreover have "j < length pre" using jb Cons.prems(1) by simp
      ultimately show ?thesis using False by (simp add: nth_append)
    qed
  qed
  have "fold (\<lambda>(i, x) (bi, bx). if x > bx then (i, x) else (bi, bx))
          (enumerate (length pre) (y # ys)) (bi, bx)
        = fold (\<lambda>(i, x) (bi, bx). if x > bx then (i, x) else (bi, bx))
          (enumerate (length ?pre) ys) (fst ?b, snd ?b)"
    by simp
  moreover have "pre @ y # ys = ?pre @ ys" by simp
  ultimately show ?case
    using Cons.IH [OF 1 2 3 4] by (simp only:)
qed

lemma argmax_first_max:
  assumes "xs \<noteq> []"
  shows "argmax xs < length xs \<and> (\<forall>j<length xs. xs ! j \<le> xs ! argmax xs)
       \<and> (\<forall>j<argmax xs. xs ! j < xs ! argmax xs)"
proof -
  obtain x ys where xs: "xs = x # ys" using assms by (cases xs) auto
  have "case fold (\<lambda>(i, x) (bi, bx). if x > bx then (i, x) else (bi, bx))
                (enumerate (length [x]) ys) (0, x) of
           (k, v) \<Rightarrow> k < length ([x] @ ys) \<and> v = ([x] @ ys) ! k
                    \<and> (\<forall>j<length ([x] @ ys). ([x] @ ys) ! j \<le> v)
                    \<and> (\<forall>j<k. ([x] @ ys) ! j < v)"
    by (rule argmax_fold) simp_all
  then show ?thesis
    unfolding xs argmax_def by (auto split: prod.splits)
qed

text \<open>On a fitted instance \<open>predict\<close> reports the regime of the most likely raw state of the
  last row, and BULL\_LOW\_VOL when the state map has no entry for it.\<close>

lemma predict_reports_argmax:
  assumes "is_fitted d" "posteriors \<noteq> []" "last posteriors \<noteq> []"
  shows "\<exists>p. predict d posteriors = Inr p
           \<and> regime p = (case state_map d (argmax (last posteriors)) of
                           None \<Rightarrow> BULL_LOW_VOL | Some r \<Rightarrow> r)
           \<and> label p = REGIME_LABELS (regime p)
           \<and> probability p = last posteriors ! argmax (last posteriors)"
  using assms by (simp add: predict_def Let_def)

text \<open>
  C4. On an instance that was never fitted, \<open>predict\<close> and \<open>get_transition_matrix\<close> fail
  with the not-fitted error, while \<open>get_state_map\<close> returns the empty mapping.
\<close>

theorem C4_get_state_map_unfitted:
  "get_state_map (RegimeDetector_init 4 20) = Inr Map.empty
   \<and> predict (RegimeDetector_init 4 20) posteriors = Inl NotFitted
   \<and> get_transition_matrix (RegimeDetector_init 4 20) transmat = Inl NotFitted"
  by (simp add: get_state_map_def predict_def get_transition_matrix_def RegimeDetector_init_def)

text \<open>
  C5. A five-state model fitted so that raw state 4 has no entry in the state map, and a
  last posterior row whose largest entry is that of state 4. The reported regime is
  BULL\_LOW\_VOL, the fixed default of the lookup for \<open>raw_state\<close>; the loop that fills
  \<open>all_probabilities\<close> files the same state under \<open>MarketRegime(4 % 4)\<close>, BULL\_HIGH\_VOL.
\<close>

theorem C5_predict_default:
  "(case fit (RegimeDetector_init 5 20)
           [(5 / 100, 2 / 100, 0), (4 / 100, 1 / 100, 0), (3 / 100, 3 / 100, 0),
            (2 / 100, 2 / 100, 0), (1 / 100, 1 / 100, 0)]
           (Inr [0, 1, 2, 3, 4]) of
      Inl e \<Rightarrow> False
    | Inr d \<Rightarrow>
        state_map d 4 = None \<and>
        (case predict d [[1 / 10, 1 / 10, 1 / 10, 1 / 10, 6 / 10]] of
           Inl e \<Rightarrow> False
         | Inr p \<Rightarrow>
             regime p = BULL_LOW_VOL \<and> probability p = 6 / 10 \<and>
             MarketRegime_of (4 mod 4) = BULL_HIGH_VOL \<and>
             all_probabilities p ''BULL_HIGH_VOL'' = Some (6 / 10) \<and>
             all_probabilities p ''BULL_LOW_VOL'' = Some (1 / 10)))"
  by code_simp

section \<open>Properties of the portfolio optimizer\<close>

text \<open>
  C3. On three days of positive returns of two assets, \<open>cvar\<close> at confidence 0.95 with
  equal weights is minus two percent: the portfolio returns are 2, 3 and 4 percent, the
  cutoff is 2.1 percent, the tail is the single return of 2 percent.
\<close>

theorem C3_cvar_negative:
  "cvar [[1 / 100, 3 / 100], [2 / 100, 4 / 100], [3 / 100, 5 / 100]] (95 / 100) None = - (2 / 100)"
  by code_simp

text \<open>\<open>monte_carlo_var\<close> ends in \<open>max(var, 0.0)\<close>.\<close>

lemma monte_carlo_var_nonneg:
  "0 \<le> monte_carlo_var np_cov mvn e returns confidence horizon n_sim"
  by (simp add: monte_carlo_var_def Let_def)





text \<open>
  C7. \<open>monte_carlo_var\<close> is a function of its arguments alone: the generator is seeded
  with the constant 42, so the ambient randomness of a call has no part in the result.
\<close>

theorem C7_monte_carlo_var_deterministic:
  "monte_carlo_var np_cov mvn e1 returns confidence horizon n_sim =
   monte_carlo_var np_cov mvn e2 returns confidence horizon n_sim"
  by (simp add: monte_carlo_var_def default_rng_def)

end
